theory Spec2Isabelle
  imports
    Main
    "HOL-Library.Char_ord"
    "HOL-Library.List_Lexorder"
    "HOL-Library.Product_Lexorder"
begin

section \<open>Text operations of the scrapers\<close>

text \<open>
  Python strings are modelled as \<^typ>\<open>string\<close>. The character classes of the regular
  expression (\<^verbatim>\<open>\w\<close>, \<^verbatim>\<open>\s\<close>, \<^verbatim>\<open>\d\<close>) and of \<^verbatim>\<open>str.strip\<close> and \<^verbatim>\<open>str.lower\<close>
  are given on the ASCII range; the order on strings is the lexicographic order on
  character codes that Python uses to compare \<^verbatim>\<open>str\<close> values.
\<close>

definition isdigit :: "char \<Rightarrow> bool" where
  "isdigit c = (c \<in> set ''0123456789'')"

definition isword :: "char \<Rightarrow> bool" where
  "isword c = (c \<in> set ''abcdefghijklmnopqrstuvwxyzABCDEFGHIJKLMNOPQRSTUVWXYZ0123456789_'')"

definition isspace :: "char \<Rightarrow> bool" where
  "isspace c = (c \<in> set [CHR 0x09, CHR 0x0A, CHR 0x0B, CHR 0x0C, CHR 0x0D,
                           CHR 0x1C, CHR 0x1D, CHR 0x1E, CHR 0x1F, CHR 0x20])"

definition lower_char :: "char \<Rightarrow> char" where
  "lower_char c =
     (case map_of (zip ''ABCDEFGHIJKLMNOPQRSTUVWXYZ'' ''abcdefghijklmnopqrstuvwxyz'') c of
        None \<Rightarrow> c
      | Some l \<Rightarrow> l)"

definition lower :: "string \<Rightarrow> string" where
  "lower s = map lower_char s"

definition strip :: "string \<Rightarrow> string" where
  "strip s = rev (dropWhile isspace (rev (dropWhile isspace s)))"

definition startswith :: "string \<Rightarrow> string \<Rightarrow> bool" where
  "startswith s p = (take (length p) s = p)"

text \<open>\<^verbatim>\<open>sub in s\<close>: \<open>sub\<close> occurs in \<open>s\<close> as a contiguous substring.\<close>

fun contains :: "string \<Rightarrow> string \<Rightarrow> bool" where
  "contains [] sub = (sub = [])"
| "contains (c # cs) sub = (if startswith (c # cs) sub then True else contains cs sub)"

definition digit_val :: "char \<Rightarrow> int" where
  "digit_val c =
     (case map_of (zip ''0123456789'' [0, 1, 2, 3, 4, 5, 6, 7, 8, 9]) c of
        None \<Rightarrow> 0
      | Some v \<Rightarrow> v)"

text \<open>\<^verbatim>\<open>int(ds)\<close> on a run of decimal digits.\<close>

definition int_of_digits :: "string \<Rightarrow> int" where
  "int_of_digits ds = foldl (\<lambda>a c. 10 * a + digit_val c) 0 ds"

subsection \<open>The date pattern\<close>

text \<open>
  \<^verbatim>\<open>(\w+)\s+(\d+),\s+(\d{4})\<close> anchored at the start of its argument. The three
  classes are pairwise such that each greedy run must be maximal for what follows it to
  match (a shorter \<^verbatim>\<open>\w+\<close> is followed by a word character, not by whitespace, and so
  on), so the match at a given position is determined by the maximal runs. The result is
  the three groups.
\<close>

definition date_match :: "string \<Rightarrow> (string \<times> string \<times> string) option" where
  "date_match s =
     (let w = takeWhile isword s; r1 = dropWhile isword s;
          sp1 = takeWhile isspace r1; r2 = dropWhile isspace r1;
          d = takeWhile isdigit r2; r3 = dropWhile isdigit r2
      in if w = [] then None
         else if sp1 = [] then None
         else if d = [] then None
         else (case r3 of
                 [] \<Rightarrow> None
               | c # r4 \<Rightarrow>
                   if c = CHR '','' then
                     (let sp2 = takeWhile isspace r4; r5 = dropWhile isspace r4;
                          y = take 4 r5
                      in if sp2 = [] then None
                         else if length y = 4 \<and> list_all isdigit y then Some (w, d, y)
                         else None)
                   else None))"

text \<open>\<^verbatim>\<open>re.search\<close> with that pattern: the match at the leftmost position that has one.\<close>

fun re_search :: "string \<Rightarrow> (string \<times> string \<times> string) option" where
  "re_search [] = None"
| "re_search (c # cs) =
     (case date_match (c # cs) of
        Some m \<Rightarrow> Some m
      | None \<Rightarrow> re_search cs)"

section \<open>The parsed document\<close>

text \<open>
  The scrapers read the page through BeautifulSoup. Its parse tree is the input of the
  model: text nodes and tags, a tag carrying its name, its attribute dictionary and its
  children in document order. The document itself is a tag.
\<close>

datatype node =
  NavigableString string
| Tag string "(string \<times> string) list" "node list"

fun tag_name :: "node \<Rightarrow> string option" where
  "tag_name (NavigableString s) = None"
| "tag_name (Tag n a cs) = Some n"

fun attr :: "node \<Rightarrow> string \<Rightarrow> string option" where
  "attr (NavigableString s) k = None"
| "attr (Tag n a cs) k = map_of a k"

text \<open>Every descendant of a node paired with its \<^verbatim>\<open>.parent\<close>, in document order.\<close>

fun with_parent :: "node \<Rightarrow> (node \<times> node) list" where
  "with_parent (NavigableString s) = []"
| "with_parent (Tag n a cs) = concat (map (\<lambda>c. (c, Tag n a cs) # with_parent c) cs)"

definition descendants :: "node \<Rightarrow> node list" where
  "descendants n = map fst (with_parent n)"

text \<open>\<^verbatim>\<open>get_text()\<close>: the text nodes below (or at) a node, concatenated.\<close>

fun get_text :: "node \<Rightarrow> string" where
  "get_text (NavigableString s) = s"
| "get_text (Tag n a cs) = concat (map get_text cs)"

text \<open>
  \<^verbatim>\<open>soup.find_all(text=re.compile(...))\<close>: the text nodes in which the pattern is
  found, each with its parent.
\<close>

fun text_matches :: "node \<times> node \<Rightarrow> (string \<times> node) list" where
  "text_matches (NavigableString s, p) = (if re_search s = None then [] else [(s, p)])"
| "text_matches (Tag n a cs, p) = []"

definition find_all_text :: "node \<Rightarrow> (string \<times> node) list" where
  "find_all_text soup = concat (map text_matches (with_parent soup))"

text \<open>\<^verbatim>\<open>find_all('a', href=True)\<close>: the \<open>a\<close> tags below a node that have an \<open>href\<close>.\<close>

definition is_a_href :: "node \<Rightarrow> bool" where
  "is_a_href t = (tag_name t = Some ''a'' \<and> attr t ''href'' \<noteq> None)"

definition find_all_a_href :: "node \<Rightarrow> (node \<times> node) list" where
  "find_all_a_href n = filter (\<lambda>(t, p). is_a_href t) (with_parent n)"

text \<open>\<^verbatim>\<open>soup.find('title')\<close>: the first \<open>title\<close> tag of the document, if any.\<close>

definition find_title :: "node \<Rightarrow> node option" where
  "find_title soup = List.find (\<lambda>t. tag_name t = Some ''title'') (descendants soup)"

section \<open>Items and the three scrapers\<close>

text \<open>
  An item is the dictionary that extraction appends: the provincial scraper stores its
  link under \<^verbatim>\<open>pdf_url\<close>, the other two under \<^verbatim>\<open>url\<close>. \<open>month\<close> is the text of the
  first group of the pattern.
\<close>

record item =
  full_text :: string
  pdf_url :: "string option"
  url :: "string option"
  month :: string
  day :: int
  year :: int
  government :: string

datatype scraper = AlbertaLegislatureScraper | HouseOfCommonsScraper | StrathconaCountyScraper

fun scraper_name :: "scraper \<Rightarrow> string" where
  "scraper_name AlbertaLegislatureScraper = ''Alberta Legislature''"
| "scraper_name HouseOfCommonsScraper = ''House of Commons (Canada)''"
| "scraper_name StrathconaCountyScraper = ''Strathcona County Council''"

fun BASE_URL :: "scraper \<Rightarrow> string" where
  "BASE_URL AlbertaLegislatureScraper = ''https://www.assembly.ab.ca''"
| "BASE_URL HouseOfCommonsScraper = ''https://www.ourcommons.ca''"
| "BASE_URL StrathconaCountyScraper = ''https://pub-strathcona.escribemeetings.com''"

definition DEBATES_URL :: string where
  "DEBATES_URL = BASE_URL HouseOfCommonsScraper @ ''/documentviewer/en/house/latest/hansard''"

text \<open>
  \<^verbatim>\<open>BASE_URL + href if not href.startswith('http') else href\<close>
\<close>

definition resolve :: "scraper \<Rightarrow> string \<Rightarrow> string" where
  "resolve sc href = (if startswith href ''http'' then href else BASE_URL sc @ href)"

text \<open>
  \<^verbatim>\<open>list.sort(key=lambda x: (x['year'], x['month'], x['day']), reverse=True)\<close>:
  a stable sort, descending in the key, that leaves items of equal key in their original
  order. The key holds the month as extracted, a string.
\<close>

definition sort_key_of :: "item \<Rightarrow> int \<times> string \<times> int" where
  "sort_key_of x = (year x, month x, day x)"

definition sort_reverse :: "('a \<Rightarrow> 'k::linorder) \<Rightarrow> 'a list \<Rightarrow> 'a list" where
  "sort_reverse k xs = rev (sort_key k (rev xs))"

subsection \<open>Alberta Legislature\<close>

text \<open>The inner loop over the parent's links, which stops at the first one naming a PDF.\<close>

fun first_pdf_link :: "scraper \<Rightarrow> node list \<Rightarrow> string option" where
  "first_pdf_link sc [] = None"
| "first_pdf_link sc (l # ls) =
     (case attr l ''href'' of
        None \<Rightarrow> first_pdf_link sc ls
      | Some href \<Rightarrow>
          if contains (lower href) ''pdf'' then Some (resolve sc href)
          else first_pdf_link sc ls)"

text \<open>One round of the outer loop: the entries appended for one matching text node.\<close>

definition alberta_entry :: "string \<times> node \<Rightarrow> item list" where
  "alberta_entry ep =
     (case ep of (element, parent) \<Rightarrow>
        (case first_pdf_link AlbertaLegislatureScraper (map fst (find_all_a_href parent)) of
           None \<Rightarrow> []
         | Some pdf_link \<Rightarrow>
             if pdf_link = [] then []
             else (case re_search element of
                     None \<Rightarrow> []
                   | Some (g1, g2, g3) \<Rightarrow>
                       [\<lparr>full_text = strip element, pdf_url = Some pdf_link, url = None,
                         month = g1, day = int_of_digits g2, year = int_of_digits g3,
                         government = ''Alberta Legislature''\<rparr>])))"

definition alberta_items :: "node \<Rightarrow> item list" where
  "alberta_items soup =
     take 5 (sort_reverse sort_key_of (concat (map alberta_entry (find_all_text soup))))"

subsection \<open>House of Commons\<close>

definition commons_items :: "node \<Rightarrow> item list" where
  "commons_items soup =
     (case find_title soup of
        None \<Rightarrow> []
      | Some title \<Rightarrow>
          (let title_text = get_text title
           in case re_search title_text of
                None \<Rightarrow> []
              | Some (g1, g2, g3) \<Rightarrow>
                  [\<lparr>full_text = title_text, pdf_url = None, url = Some DEBATES_URL,
                    month = g1, day = int_of_digits g2, year = int_of_digits g3,
                    government = ''House of Commons (Canada)''\<rparr>]))"

subsection \<open>Strathcona County Council\<close>

definition strathcona_entry :: "node \<times> node \<Rightarrow> item list" where
  "strathcona_entry lp =
     (case lp of (link, parent) \<Rightarrow>
        (case attr link ''href'' of
           None \<Rightarrow> []
         | Some href \<Rightarrow>
             (let text = strip (get_text link)
              in if contains (lower text) ''council'' \<and>
                    (contains (lower text) ''agenda'' \<or> contains (lower text) ''minutes'')
                 then (case re_search (get_text parent) of
                         None \<Rightarrow> []
                       | Some (g1, g2, g3) \<Rightarrow>
                           [\<lparr>full_text = text, pdf_url = None,
                             url = Some (resolve StrathconaCountyScraper href),
                             month = g1, day = int_of_digits g2, year = int_of_digits g3,
                             government = ''Strathcona County Council''\<rparr>])
                 else [])))"

definition strathcona_items :: "node \<Rightarrow> item list" where
  "strathcona_items soup =
     take 5 (sort_reverse sort_key_of (concat (map strathcona_entry (find_all_a_href soup))))"

subsection \<open>get\_latest\_info\<close>

text \<open>
  The dictionary \<^verbatim>\<open>get_latest_info\<close> returns has either the key \<^verbatim>\<open>latest_items\<close> or
  the key \<^verbatim>\<open>error\<close>, next to \<^verbatim>\<open>fetched_at\<close> and \<^verbatim>\<open>government\<close>. The fetch and the
  parser are outside the program: \<open>page\<close> is \<open>Inl msg\<close> when the request or the parser
  raised (with \<open>msg\<close> the text of the exception) and \<open>Inr soup\<close> otherwise; \<open>now\<close> is
  the clock reading written to \<^verbatim>\<open>fetched_at\<close>. \<^verbatim>\<open>int\<close> on the digit groups is taken
  as total.
\<close>

datatype info =
  Latest "item list" string string
| Failed string string string

fun extract_items :: "scraper \<Rightarrow> node \<Rightarrow> item list" where
  "extract_items AlbertaLegislatureScraper soup = alberta_items soup"
| "extract_items HouseOfCommonsScraper soup = commons_items soup"
| "extract_items StrathconaCountyScraper soup = strathcona_items soup"

definition get_latest_info :: "scraper \<Rightarrow> string + node \<Rightarrow> string \<Rightarrow> info" where
  "get_latest_info sc page now =
     (case page of
        Inl e \<Rightarrow> Failed e now (scraper_name sc)
      | Inr soup \<Rightarrow> Latest (extract_items sc soup) now (scraper_name sc))"

section \<open>Dates\<close>

text \<open>
  The values of \<^verbatim>\<open>datetime\<close>: the seven fields and the offset of an offset-aware value
  (\<open>None\<close> for a naive one); the time fields are never negative.
  \<^verbatim>\<open>datetime(y, m, d)\<close> raises \<^verbatim>\<open>ValueError\<close> unless the
  three numbers name a day of the proleptic Gregorian calendar in the years 1 to 9999.
\<close>

datatype exn = ValueError | TypeError

record datetime =
  dt_year :: int
  dt_month :: int
  dt_day :: int
  dt_hour :: nat
  dt_minute :: nat
  dt_second :: nat
  dt_microsecond :: nat
  dt_tzinfo :: "int option"

definition is_leap :: "int \<Rightarrow> bool" where
  "is_leap y = (if y mod 400 = 0 then True else if y mod 100 = 0 then False else y mod 4 = 0)"

definition days_in_month :: "int \<Rightarrow> int \<Rightarrow> int" where
  "days_in_month y m =
     (if m = 2 then (if is_leap y then 29 else 28)
      else if m = 4 then 30 else if m = 6 then 30 else if m = 9 then 30
      else if m = 11 then 30 else 31)"

definition valid_ymd :: "int \<times> int \<times> int \<Rightarrow> bool" where
  "valid_ymd ymd =
     (case ymd of (y, m, d) \<Rightarrow>
        1 \<le> y \<and> y \<le> 9999 \<and> 1 \<le> m \<and> m \<le> 12 \<and> 1 \<le> d \<and> d \<le> days_in_month y m)"

definition mk_datetime :: "int \<Rightarrow> int \<Rightarrow> int \<Rightarrow> exn + datetime" where
  "mk_datetime y m d =
     (if valid_ymd (y, m, d)
      then Inr \<lparr>dt_year = y, dt_month = m, dt_day = d, dt_hour = 0, dt_minute = 0,
                dt_second = 0, dt_microsecond = 0, dt_tzinfo = None\<rparr>
      else Inl ValueError)"

definition dt_fields :: "datetime \<Rightarrow> int \<times> int \<times> int \<times> nat \<times> nat \<times> nat \<times> nat" where
  "dt_fields t = (dt_year t, dt_month t, dt_day t, dt_hour t, dt_minute t, dt_second t,
                  dt_microsecond t)"

text \<open>
  \<^verbatim>\<open>item_date > last_check\<close> for the naive \<open>item_date\<close> that \<^verbatim>\<open>datetime(y, m, d)\<close>
  builds: against a naive value the fields are compared in order, against an
  offset-aware value the comparison raises \<^verbatim>\<open>TypeError\<close>.
\<close>

definition naive_gt :: "datetime \<Rightarrow> datetime \<Rightarrow> exn + bool" where
  "naive_gt item_date last_check =
     (case dt_tzinfo last_check of
        Some off \<Rightarrow> Inl TypeError
      | None \<Rightarrow> Inr (dt_fields last_check < dt_fields item_date))"

section \<open>check\_for\_new\<close>

text \<open>The dictionary literal \<^verbatim>\<open>month_map\<close> of each scraper's \<^verbatim>\<open>check_for_new\<close>.\<close>

fun month_map :: "scraper \<Rightarrow> (string \<times> int) list" where
  "month_map AlbertaLegislatureScraper =
     [(''Jan'', 1), (''Feb'', 2), (''Mar'', 3), (''Apr'', 4), (''May'', 5), (''Jun'', 6),
      (''Jul'', 7), (''Aug'', 8), (''Sep'', 9), (''Oct'', 10), (''Nov'', 11), (''Dec'', 12)]"
| "month_map HouseOfCommonsScraper =
     [(''January'', 1), (''February'', 2), (''March'', 3), (''April'', 4),
      (''May'', 5), (''June'', 6), (''July'', 7), (''August'', 8),
      (''September'', 9), (''October'', 10), (''November'', 11), (''December'', 12)]"
| "month_map StrathconaCountyScraper =
     [(''January'', 1), (''February'', 2), (''March'', 3), (''April'', 4),
      (''May'', 5), (''June'', 6), (''July'', 7), (''August'', 8),
      (''September'', 9), (''October'', 10), (''November'', 11), (''December'', 12),
      (''Jan'', 1), (''Feb'', 2), (''Mar'', 3), (''Apr'', 4), (''Jun'', 6),
      (''Jul'', 7), (''Aug'', 8), (''Sep'', 9), (''Oct'', 10), (''Nov'', 11), (''Dec'', 12)]"

text \<open>\<^verbatim>\<open>month_map.get(k, 1)\<close>\<close>

definition month_map_get :: "scraper \<Rightarrow> string \<Rightarrow> int" where
  "month_map_get sc k = (case map_of (month_map sc) k of None \<Rightarrow> 1 | Some m \<Rightarrow> m)"

text \<open>
  The three numbers that \<^verbatim>\<open>check_for_new\<close> passes to \<^verbatim>\<open>datetime\<close> for an item: its
  normalized date.
\<close>

definition normalized_date :: "scraper \<Rightarrow> item \<Rightarrow> int \<times> int \<times> int" where
  "normalized_date sc it = (year it, month_map_get sc (month it), day it)"

text \<open>The body of the \<^verbatim>\<open>try\<close>: the value of its test, or the exception it raises.\<close>

definition item_is_new :: "scraper \<Rightarrow> datetime \<Rightarrow> item \<Rightarrow> exn + bool" where
  "item_is_new sc last_check it =
     (case mk_datetime (year it) (month_map_get sc (month it)) (day it) of
        Inl e \<Rightarrow> Inl e
      | Inr item_date \<Rightarrow> naive_gt item_date last_check)"

text \<open>
  The loop over \<^verbatim>\<open>info['latest_items']\<close>: an item is appended when the test holds, and
  skipped when the test fails or raises (\<^verbatim>\<open>except: continue\<close>).
\<close>

fun new_items_loop :: "scraper \<Rightarrow> datetime \<Rightarrow> item list \<Rightarrow> item list" where
  "new_items_loop sc last_check [] = []"
| "new_items_loop sc last_check (it # its) =
     (case item_is_new sc last_check it of
        Inl e \<Rightarrow> new_items_loop sc last_check its
      | Inr b \<Rightarrow>
          if b then it # new_items_loop sc last_check its
          else new_items_loop sc last_check its)"

text \<open>
  \<^verbatim>\<open>check_for_new\<close> after its test for a failed fetch, as a function of
  \<^verbatim>\<open>info['latest_items']\<close>. The three scrapers have the same text here but for
  \<^verbatim>\<open>month_map\<close>. \<^verbatim>\<open>not last_check_date\<close> holds for \<^verbatim>\<open>None\<close> and for the empty string.
  \<^verbatim>\<open>datetime.fromisoformat\<close> belongs to the interpreter's library and is a parameter; it
  is called outside the \<^verbatim>\<open>try\<close>, so what it raises leaves \<^verbatim>\<open>check_for_new\<close>.
\<close>

definition first_check :: "item list \<Rightarrow> bool \<times> item list" where
  "first_check latest_items =
     (let latest = (case latest_items of [] \<Rightarrow> None | x # xs \<Rightarrow> Some x)
      in (True, case latest of None \<Rightarrow> [] | Some l \<Rightarrow> [l]))"

definition evaluate ::
  "(string \<Rightarrow> exn + datetime) \<Rightarrow> scraper \<Rightarrow> item list \<Rightarrow> string option \<Rightarrow> exn + bool \<times> item list"
where
  "evaluate fromisoformat sc latest_items last_check_date =
     (case last_check_date of
        None \<Rightarrow> Inr (first_check latest_items)
      | Some s \<Rightarrow>
          if s = [] then Inr (first_check latest_items)
          else (case fromisoformat s of
                  Inl e \<Rightarrow> Inl e
                | Inr last_check \<Rightarrow>
                    (let new_items = new_items_loop sc last_check latest_items
                     in Inr (0 < length new_items, new_items))))"

definition check_for_new ::
  "(string \<Rightarrow> exn + datetime) \<Rightarrow> scraper \<Rightarrow> string + node \<Rightarrow> string \<Rightarrow> string option
     \<Rightarrow> exn + bool \<times> item list"
where
  "check_for_new fromisoformat sc page now last_check_date =
     (case get_latest_info sc page now of
        Failed e t g \<Rightarrow> Inr (False, [])
      | Latest latest_items t g \<Rightarrow> evaluate fromisoformat sc latest_items last_check_date)"

section \<open>check\_all\<close>

text \<open>
  One dictionary per scraper, in the order of \<^verbatim>\<open>self.scrapers\<close>. \<open>pages\<close> gives what
  each scraper's fetch returns, \<open>clock\<close> the clock reading of each scraper's
  \<^verbatim>\<open>get_latest_info\<close>, \<open>now\<close> the reading written to \<^verbatim>\<open>checked_at\<close>. An exception of
  \<^verbatim>\<open>check_for_new\<close> is not caught.
\<close>

record government_entry =
  name :: string
  has_new_content :: bool
  new_items :: "item list"

record check_result =
  checked_at :: string
  governments :: "government_entry list"

definition scrapers :: "scraper list" where
  "scrapers = [AlbertaLegislatureScraper, HouseOfCommonsScraper, StrathconaCountyScraper]"

fun check_scrapers ::
  "(string \<Rightarrow> exn + datetime) \<Rightarrow> (scraper \<Rightarrow> string + node) \<Rightarrow> (scraper \<Rightarrow> string)
     \<Rightarrow> string option \<Rightarrow> scraper list \<Rightarrow> government_entry list
     \<Rightarrow> exn + government_entry list"
where
  "check_scrapers fromisoformat pages clock last_check_date [] acc = Inr acc"
| "check_scrapers fromisoformat pages clock last_check_date (sc # scs) acc =
     (case check_for_new fromisoformat sc (pages sc) (clock sc) last_check_date of
        Inl e \<Rightarrow> Inl e
      | Inr (has_new, new) \<Rightarrow>
          check_scrapers fromisoformat pages clock last_check_date scs
            (acc @ [\<lparr>name = scraper_name sc, has_new_content = has_new, new_items = new\<rparr>]))"

definition check_all ::
  "(string \<Rightarrow> exn + datetime) \<Rightarrow> (scraper \<Rightarrow> string + node) \<Rightarrow> (scraper \<Rightarrow> string) \<Rightarrow> string
     \<Rightarrow> string option \<Rightarrow> exn + check_result"
where
  "check_all fromisoformat pages clock now last_check_date =
     (case check_scrapers fromisoformat pages clock last_check_date scrapers [] of
        Inl e \<Rightarrow> Inl e
      | Inr gs \<Rightarrow> Inr \<lparr>checked_at = now, governments = gs\<rparr>)"

section \<open>The calendar\<close>

text \<open>
  The reference against which normalization is judged: the twelve month names of the
  calendar in order, each also in its three-letter form, and the date a month name, a day
  and a year stand for.
\<close>

definition month_names :: "string list" where
  "month_names = [''January'', ''February'', ''March'', ''April'', ''May'', ''June'', ''July'',
                  ''August'', ''September'', ''October'', ''November'', ''December'']"

definition month_abbreviations :: "string list" where
  "month_abbreviations = map (take 3) month_names"

definition calendar_month :: "string \<Rightarrow> int option" where
  "calendar_month k =
     map_of (zip (month_names @ month_abbreviations)
                 [1, 2, 3, 4, 5, 6, 7, 8, 9, 10, 11, 12, 1, 2, 3, 4, 5, 6, 7, 8, 9, 10, 11, 12]) k"

definition calendar_date :: "item \<Rightarrow> (int \<times> int \<times> int) option" where
  "calendar_date it =
     (case calendar_month (month it) of
        None \<Rightarrow> None
      | Some m \<Rightarrow> Some (year it, m, day it))"

text \<open>
  Newest first: each item's normalized date is at least that of every item after it.
\<close>

definition newest_first :: "scraper \<Rightarrow> item list \<Rightarrow> bool" where
  "newest_first sc items =
     sorted_wrt (\<lambda>a b. normalized_date sc b \<le> normalized_date sc a) items"

text \<open>The position of a scraper's dictionary in \<^verbatim>\<open>results['governments']\<close>.\<close>

fun position :: "scraper \<Rightarrow> nat" where
  "position AlbertaLegislatureScraper = 0"
| "position HouseOfCommonsScraper = 1"
| "position StrathconaCountyScraper = 2"


section \<open>Example inputs\<close>

text \<open>
  Two transcript rows, December 10 above October 5, each with its PDF link; a third
  document has one row that reads as a bill number.
\<close>

definition transcripts_dec_oct :: node where
  "transcripts_dec_oct =
     Tag ''[document]'' []
       [Tag ''li'' []
          [NavigableString ''Dec 10, 2025, aft. '',
           Tag ''a'' [(''href'', ''/docs/dec10.pdf'')] [NavigableString ''PDF'']],
        Tag ''li'' []
          [NavigableString ''Oct 5, 2025, aft. '',
           Tag ''a'' [(''href'', ''/docs/oct05.pdf'')] [NavigableString ''PDF'']]]"

definition transcripts_bill :: node where
  "transcripts_bill =
     Tag ''[document]'' []
       [Tag ''li'' []
          [NavigableString ''Bill 45, 2025 '',
           Tag ''a'' [(''href'', ''https://docs.assembly.ab.ca/bill45.PDF'')]
             [NavigableString ''text'']],
        Tag ''li'' []
          [NavigableString ''Dec 10, 2025, aft. '',
           Tag ''a'' [(''href'', ''/docs/dec10.pdf'')] [NavigableString ''PDF'']]]"

text \<open>Two council meetings, December 9 above October 7.\<close>

definition meetings_dec_oct :: node where
  "meetings_dec_oct =
     Tag ''[document]'' []
       [Tag ''div'' []
          [Tag ''a'' [(''href'', ''/Meeting.aspx?Id=12'')]
             [NavigableString ''Council Meeting Agenda''],
           NavigableString '' - December 9, 2025''],
        Tag ''div'' []
          [Tag ''a'' [(''href'', ''/Meeting.aspx?Id=10'')]
             [NavigableString ''Council Meeting Minutes''],
           NavigableString '' - October 7, 2025'']]"

text \<open>A debates page with a dated title, one whose title has no date, an empty page.\<close>

definition debates_oct20 :: node where
  "debates_oct20 =
     Tag ''[document]'' []
       [Tag ''html'' []
          [Tag ''head'' []
             [Tag ''title'' [] [NavigableString ''Debates (Hansard) No. 39 - October 20, 2025'']],
           Tag ''body'' [] [NavigableString ''Sitting of November 3, 2025'']]]"

definition debates_undated :: node where
  "debates_undated =
     Tag ''[document]'' [] [Tag ''title'' [] [NavigableString ''House of Commons'']]"

definition empty_page :: node where
  "empty_page = Tag ''[document]'' [] []"

definition debates_oct20_bare :: node where
  "debates_oct20_bare =
     Tag ''[document]'' []
       [Tag ''title'' [] [NavigableString ''Debates (Hansard) No. 39 - October 20, 2025'']]"

text \<open>The items these pages give.\<close>

definition transcript_dec10 :: item where
  "transcript_dec10 =
     \<lparr>full_text = ''Dec 10, 2025, aft.'',
      pdf_url = Some ''https://www.assembly.ab.ca/docs/dec10.pdf'', url = None,
      month = ''Dec'', day = 10, year = 2025, government = ''Alberta Legislature''\<rparr>"

definition transcript_oct5 :: item where
  "transcript_oct5 =
     \<lparr>full_text = ''Oct 5, 2025, aft.'',
      pdf_url = Some ''https://www.assembly.ab.ca/docs/oct05.pdf'', url = None,
      month = ''Oct'', day = 5, year = 2025, government = ''Alberta Legislature''\<rparr>"

definition transcript_bill45 :: item where
  "transcript_bill45 =
     \<lparr>full_text = ''Bill 45, 2025'',
      pdf_url = Some ''https://docs.assembly.ab.ca/bill45.PDF'', url = None,
      month = ''Bill'', day = 45, year = 2025, government = ''Alberta Legislature''\<rparr>"

definition meeting_dec9 :: item where
  "meeting_dec9 =
     \<lparr>full_text = ''Council Meeting Agenda'', pdf_url = None,
      url = Some ''https://pub-strathcona.escribemeetings.com/Meeting.aspx?Id=12'',
      month = ''December'', day = 9, year = 2025,
      government = ''Strathcona County Council''\<rparr>"

definition meeting_oct7 :: item where
  "meeting_oct7 =
     \<lparr>full_text = ''Council Meeting Minutes'', pdf_url = None,
      url = Some ''https://pub-strathcona.escribemeetings.com/Meeting.aspx?Id=10'',
      month = ''October'', day = 7, year = 2025,
      government = ''Strathcona County Council''\<rparr>"

definition debate_oct20 :: item where
  "debate_oct20 =
     \<lparr>full_text = ''Debates (Hansard) No. 39 - October 20, 2025'', pdf_url = None,
      url = Some ''https://www.ourcommons.ca/documentviewer/en/house/latest/hansard'',
      month = ''October'', day = 20, year = 2025,
      government = ''House of Commons (Canada)''\<rparr>"

text \<open>
  A stand-in for \<^verbatim>\<open>datetime.fromisoformat\<close> that has its values at the timestamps used
  below.
\<close>

definition new_year_2025 :: datetime where
  "new_year_2025 =
     \<lparr>dt_year = 2025, dt_month = 1, dt_day = 1, dt_hour = 0, dt_minute = 0,
      dt_second = 0, dt_microsecond = 0, dt_tzinfo = None\<rparr>"

definition nov1_morning :: datetime where
  "nov1_morning =
     \<lparr>dt_year = 2025, dt_month = 11, dt_day = 1, dt_hour = 8, dt_minute = 30,
      dt_second = 0, dt_microsecond = 0, dt_tzinfo = None\<rparr>"

definition fromisoformat_sample :: "string \<Rightarrow> exn + datetime" where
  "fromisoformat_sample s =
     (if s = ''2025-01-01'' then Inr new_year_2025
      else if s = ''2025-11-01T08:30:00'' then Inr nov1_morning
      else Inl ValueError)"

definition pages_all :: "scraper \<Rightarrow> string + node" where
  "pages_all sc =
     (case sc of
        AlbertaLegislatureScraper \<Rightarrow> Inr transcripts_dec_oct
      | HouseOfCommonsScraper \<Rightarrow> Inr debates_oct20
      | StrathconaCountyScraper \<Rightarrow> Inr meetings_dec_oct)"

definition pages_alberta_down :: "scraper \<Rightarrow> string + node" where
  "pages_alberta_down sc =
     (case sc of
        AlbertaLegislatureScraper \<Rightarrow> Inl ''503 Server Error''
      | HouseOfCommonsScraper \<Rightarrow> Inr debates_oct20
      | StrathconaCountyScraper \<Rightarrow> Inr meetings_dec_oct)"

definition pages_alberta_quiet :: "scraper \<Rightarrow> string + node" where
  "pages_alberta_quiet sc =
     (case sc of
        AlbertaLegislatureScraper \<Rightarrow> Inr empty_page
      | HouseOfCommonsScraper \<Rightarrow> Inr debates_oct20
      | StrathconaCountyScraper \<Rightarrow> Inr meetings_dec_oct)"

definition clock_sample :: "scraper \<Rightarrow> string" where
  "clock_sample sc = ''2025-12-11T09:00:01''"

section \<open>Properties of the parts\<close>


lemma length_sort_reverse: "length (sort_reverse k xs) = length xs"
  by (simp add: sort_reverse_def)

lemma re_search_leftmost:
  "re_search s = Some g \<Longrightarrow>
     \<exists>n<length s. date_match (drop n s) = Some g \<and> (\<forall>k<n. date_match (drop k s) = None)"
proof (induction s)
  case Nil
  then show ?case by simp
next
  case (Cons c cs)
  show ?case
  proof (cases "date_match (c # cs)")
    case (Some m)
    with Cons.prems have "m = g" by simp
    with Some show ?thesis by (intro exI[of _ 0]) simp
  next
    case None
    with Cons.prems have "re_search cs = Some g" by simp
    from Cons.IH[OF this] obtain n where n: "n < length cs" "date_match (drop n cs) = Some g"
      "\<forall>k<n. date_match (drop k cs) = None" by blast
    have "date_match (drop k (c # cs)) = None" if "k < Suc n" for k
      using that None n(3) by (cases k) auto
    with n(1,2) show ?thesis by (intro exI[of _ "Suc n"]) simp
  qed
qed












lemma length_commons_items: "length (commons_items soup) \<le> 1"
  by (simp add: commons_items_def Let_def split: option.splits prod.splits)

lemma length_extract_items: "length (extract_items sc soup) \<le> 5"
  using length_commons_items[of soup]
  by (cases sc) (simp_all add: alberta_items_def strathcona_items_def)

lemma check_for_new_clock:
  "check_for_new F sc page now ref = check_for_new F sc page now' ref"
  by (simp add: check_for_new_def get_latest_info_def split: sum.splits)

lemma check_scrapers_clock:
  "check_scrapers F pages clock ref scs acc = check_scrapers F pages clock' ref scs acc"
proof (induction scs arbitrary: acc)
  case Nil
  show ?case by simp
next
  case (Cons sc scs)
  show ?case
    using check_for_new_clock[of F sc "pages sc" "clock sc" ref "clock' sc"]
    by (simp add: Cons.IH split: sum.splits prod.splits)
qed

lemma new_items_loop_filter:
  "new_items_loop sc R xs = filter (\<lambda>it. item_is_new sc R it = Inr True) xs"
  by (induction xs) (auto split: sum.splits)

lemma item_is_new_naive:
  assumes "dt_tzinfo R = None"
  shows "item_is_new sc R it = Inr True \<longleftrightarrow>
           valid_ymd (normalized_date sc it) \<and>
           (dt_year R, dt_month R, dt_day R) < normalized_date sc it"
  using assms
  by (auto simp: item_is_new_def mk_datetime_def naive_gt_def dt_fields_def normalized_date_def)

lemma item_is_new_invalid:
  "\<not> valid_ymd (normalized_date sc it) \<Longrightarrow> item_is_new sc R it = Inl ValueError"
  by (simp add: item_is_new_def mk_datetime_def normalized_date_def)

lemma new_items_loop_aware:
  "dt_tzinfo R = Some off \<Longrightarrow> new_items_loop sc R xs = []"
  by (induction xs) (simp_all add: item_is_new_def naive_gt_def split: sum.splits)

lemma check_all_Inr:
  "check_all F pages clock now ref = Inr r \<longleftrightarrow>
     (\<exists>hA nA hH nH hS nS.
        check_for_new F AlbertaLegislatureScraper (pages AlbertaLegislatureScraper)
          (clock AlbertaLegislatureScraper) ref = Inr (hA, nA) \<and>
        check_for_new F HouseOfCommonsScraper (pages HouseOfCommonsScraper)
          (clock HouseOfCommonsScraper) ref = Inr (hH, nH) \<and>
        check_for_new F StrathconaCountyScraper (pages StrathconaCountyScraper)
          (clock StrathconaCountyScraper) ref = Inr (hS, nS) \<and>
        r = \<lparr>checked_at = now, governments =
              [\<lparr>name = scraper_name AlbertaLegislatureScraper, has_new_content = hA, new_items = nA\<rparr>,
               \<lparr>name = scraper_name HouseOfCommonsScraper, has_new_content = hH, new_items = nH\<rparr>,
               \<lparr>name = scraper_name StrathconaCountyScraper, has_new_content = hS, new_items = nS\<rparr>]\<rparr>)"
  by (auto simp: check_all_def scrapers_def simp del: scraper_name.simps split: sum.splits prod.splits)

lemma month_map_calendar:
  "map_of (month_map sc) k = Some m \<Longrightarrow> calendar_month k = Some m"
  by (cases sc)
     (auto simp: calendar_month_def month_names_def month_abbreviations_def split: if_splits)


lemma month_map_tables:
  "set (map fst (month_map AlbertaLegislatureScraper)) = set month_abbreviations \<and>
   set (map fst (month_map HouseOfCommonsScraper)) = set month_names \<and>
   set (map fst (month_map StrathconaCountyScraper)) = set month_names \<union> set month_abbreviations"
  by (auto simp: month_names_def month_abbreviations_def)

lemma recognized_calendar_date:
  assumes "map_of (month_map sc) (month a) \<noteq> None"
  shows "calendar_date a = Some (normalized_date sc a)"
proof -
  from assms obtain m where m: "map_of (month_map sc) (month a) = Some m"
    by blast
  then have "calendar_month (month a) = Some m"
    by (rule month_map_calendar)
  with m show ?thesis
    by (simp add: calendar_date_def normalized_date_def month_map_get_def)
qed

lemma evaluate_present:
  assumes "s \<noteq> []" and "F s = Inr R"
  shows "evaluate F sc items (Some s) =
           Inr (new_items_loop sc R items \<noteq> [], new_items_loop sc R items)"
  using assms by (simp add: evaluate_def Let_def)

lemma evaluate_absent:
  "evaluate F sc items None = Inr (True, take 1 items)"
  "evaluate F sc items (Some []) = Inr (True, take 1 items)"
  by (cases items; simp add: evaluate_def first_check_def)+

lemma check_for_new_failed:
  "check_for_new F sc (Inl e) now ref = Inr (False, [])"
  by (simp add: check_for_new_def get_latest_info_def)

lemma check_for_new_returns:
  assumes "\<And>s. ref = Some s \<Longrightarrow> s \<noteq> [] \<Longrightarrow> \<exists>R. F s = Inr R"
  shows "\<exists>has_new new. check_for_new F sc page now ref = Inr (has_new, new)"
proof (cases page)
  case (Inl e)
  then show ?thesis
    using check_for_new_failed by blast
next
  case (Inr soup)
  show ?thesis
  proof (cases ref)
    case None
    with Inr show ?thesis
      by (auto simp: check_for_new_def get_latest_info_def evaluate_absent)
  next
    case (Some s)
    show ?thesis
    proof (cases "s = []")
      case True
      with Inr Some show ?thesis
        by (auto simp: check_for_new_def get_latest_info_def evaluate_absent)
    next
      case False
      with assms Some obtain R where "F s = Inr R"
        by blast
      with Inr Some False show ?thesis
        by (auto simp: check_for_new_def get_latest_info_def evaluate_present)
    qed
  qed
qed

lemma governments_nth:
  assumes "check_all F pages clock now ref = Inr r"
  shows "\<exists>has_new new.
           check_for_new F sc (pages sc) (clock sc) ref = Inr (has_new, new) \<and>
           governments r ! position sc =
             \<lparr>name = scraper_name sc, has_new_content = has_new, new_items = new\<rparr>"
  using assms unfolding check_all_Inr
  by (cases sc) auto

lemma check_all_returns:
  assumes "\<And>s. ref = Some s \<Longrightarrow> s \<noteq> [] \<Longrightarrow> \<exists>R. F s = Inr R"
  shows "\<exists>r. check_all F pages clock now ref = Inr r"
proof -
  have "\<exists>has_new new. check_for_new F sc (pages sc) (clock sc) ref = Inr (has_new, new)" for sc
    using assms by (rule check_for_new_returns)
  then show ?thesis
    unfolding check_all_Inr by metis
qed

subsection \<open>The examples evaluated\<close>

lemma extract_transcripts_dec_oct:
  "extract_items AlbertaLegislatureScraper transcripts_dec_oct = [transcript_oct5, transcript_dec10]"
  by code_simp

lemma extract_transcripts_bill:
  "extract_items AlbertaLegislatureScraper transcripts_bill = [transcript_dec10, transcript_bill45]"
  by code_simp

lemma extract_meetings_dec_oct:
  "extract_items StrathconaCountyScraper meetings_dec_oct = [meeting_oct7, meeting_dec9]"
  by code_simp

lemma extract_debates_oct20:
  "extract_items HouseOfCommonsScraper debates_oct20 = [debate_oct20]"
  by code_simp

lemma fromisoformat_sample_values:
  "fromisoformat_sample ''2025-01-01'' = Inr new_year_2025"
  "fromisoformat_sample ''2025-11-01T08:30:00'' = Inr nov1_morning"
  by (simp_all add: fromisoformat_sample_def)

section \<open>Order of the extracted items\<close>

text \<open>
  What the sort establishes: the items returned are in descending order of the key
  (year, month as extracted, day).
\<close>

lemma sorted_by_key:
  "sorted_wrt (\<lambda>a b. sort_key_of b \<le> sort_key_of a) (take n (sort_reverse sort_key_of xs))"
proof -
  have "sorted (map sort_key_of (sort_key sort_key_of (rev xs)))"
    by (rule sorted_sort_key)
  then have "sorted_wrt (\<lambda>a b. sort_key_of a \<le> sort_key_of b) (sort_key sort_key_of (rev xs))"
    by (simp add: sorted_wrt_map)
  then have "sorted_wrt (\<lambda>a b. sort_key_of b \<le> sort_key_of a) (sort_reverse sort_key_of xs)"
    by (simp add: sort_reverse_def sorted_wrt_rev)
  then show ?thesis
    by (rule sorted_wrt_take)
qed

text \<open>
  Claim C1: the items returned by the provincial and the municipal extraction are in
  descending order of their normalized dates. On the two example pages they are not: the
  key compares the month names as strings, so October (\<open>Oct\<close>) comes before December
  (\<open>Dec\<close>), and the normalized dates of the returned lists ascend.
\<close>

theorem newest_first_by_month_name:
  "map (normalized_date AlbertaLegislatureScraper)
       (extract_items AlbertaLegislatureScraper transcripts_dec_oct) =
     [(2025, 10, 5), (2025, 12, 10)] \<and>
   \<not> newest_first AlbertaLegislatureScraper
       (extract_items AlbertaLegislatureScraper transcripts_dec_oct) \<and>
   map (normalized_date StrathconaCountyScraper)
       (extract_items StrathconaCountyScraper meetings_dec_oct) =
     [(2025, 10, 7), (2025, 12, 9)] \<and>
   \<not> newest_first StrathconaCountyScraper
       (extract_items StrathconaCountyScraper meetings_dec_oct)"
  by code_simp


section \<open>The first check\<close>

text \<open>
  Claim C3: without a reference, \<open>has_new\<close> is true with the first item alone when
  there are items, and false with no items when there are none. On a debates page whose
  title has no date there are no items, and \<^verbatim>\<open>check_for_new\<close> returns true with an empty
  list.
\<close>

theorem first_check_without_items:
  "check_for_new fromisoformat_sample HouseOfCommonsScraper (Inr debates_undated)
     ''2025-12-11T09:00:00'' None = Inr (True, [])"
  by code_simp


section \<open>The clock\<close>

text \<open>
  Claim C9: two runs of \<^verbatim>\<open>check_all\<close> with the same reference and the same pages give
  the same result but for \<^verbatim>\<open>checked_at\<close>, whatever the clock reads in each: both raise
  the same exception, or both return, with the same list of governments.
\<close>

theorem check_all_but_for_clock:
  "check_all F pages clock now ref =
     map_sum id (\<lambda>r. r\<lparr>checked_at := now\<rparr>) (check_all F pages clock' now' ref)"
  using check_scrapers_clock[of F pages clock ref scrapers "[]" clock']
  by (simp add: check_all_def split: sum.splits)

text \<open>
  On the three example pages, with two different clocks.
\<close>

theorem check_all_but_for_clock_witness:
  "check_all fromisoformat_sample pages_all clock_sample ''2025-12-11T09:00:00''
     (Some ''2025-11-01T08:30:00'') =
   map_sum id (\<lambda>r. r\<lparr>checked_at := ''2025-12-11T09:00:00''\<rparr>)
     (check_all fromisoformat_sample pages_all (\<lambda>sc. ''2025-12-11T09:07:30'')
        ''2025-12-11T09:07:29'' (Some ''2025-11-01T08:30:00''))"
  by (rule check_all_but_for_clock)


section \<open>Number of items\<close>

text \<open>
  Claim C7: every extraction returns at most five items; the federal one returns at most
  one, depends on the document through its first title tag only, and the date of its item
  is the leftmost match of the pattern in the title's text.
\<close>

theorem at_most_five_items:
  "length (extract_items sc soup) \<le> 5 \<and>
   length (extract_items HouseOfCommonsScraper soup) \<le> 1 \<and>
   (find_title soup = find_title soup' \<longrightarrow>
      extract_items HouseOfCommonsScraper soup = extract_items HouseOfCommonsScraper soup') \<and>
   (\<forall>it \<in> set (extract_items HouseOfCommonsScraper soup).
      \<exists>title n g2 g3.
        find_title soup = Some title \<and> full_text it = get_text title \<and>
        n < length (get_text title) \<and>
        date_match (drop n (get_text title)) = Some (month it, g2, g3) \<and>
        (\<forall>k<n. date_match (drop k (get_text title)) = None) \<and>
        day it = int_of_digits g2 \<and> year it = int_of_digits g3)"
proof (intro conjI impI ballI)
  show "length (extract_items sc soup) \<le> 5"
    by (rule length_extract_items)
  show "length (extract_items HouseOfCommonsScraper soup) \<le> 1"
    using length_commons_items[of soup] by simp
  show "extract_items HouseOfCommonsScraper soup = extract_items HouseOfCommonsScraper soup'"
    if "find_title soup = find_title soup'"
    using that by (simp add: commons_items_def)
next
  fix it
  assume it: "it \<in> set (extract_items HouseOfCommonsScraper soup)"
  then obtain title where t: "find_title soup = Some title"
    by (cases "find_title soup") (auto simp: commons_items_def)
  from it t obtain g where g: "re_search (get_text title) = Some g"
    by (cases "re_search (get_text title)") (auto simp: commons_items_def Let_def)
  obtain g1 g2 g3 where g3: "g = (g1, g2, g3)"
    by (cases g)
  from it t g g3 have fields: "full_text it = get_text title" "month it = g1"
    "day it = int_of_digits g2" "year it = int_of_digits g3"
    by (simp_all add: commons_items_def Let_def)
  from re_search_leftmost[OF g] obtain n where "n < length (get_text title)"
    "date_match (drop n (get_text title)) = Some g"
    "\<forall>k<n. date_match (drop k (get_text title)) = None"
    by blast
  with t g3 fields show "\<exists>title n g2 g3.
        find_title soup = Some title \<and> full_text it = get_text title \<and>
        n < length (get_text title) \<and>
        date_match (drop n (get_text title)) = Some (month it, g2, g3) \<and>
        (\<forall>k<n. date_match (drop k (get_text title)) = None) \<and>
        day it = int_of_digits g2 \<and> year it = int_of_digits g3"
    by auto
qed

text \<open>
  On the dated debates page: one item, the same as for a document that has the title
  alone, its date read from the leftmost match in the title.
\<close>

theorem at_most_five_items_witness:
  "extract_items HouseOfCommonsScraper debates_oct20 = [debate_oct20] \<and>
   length (extract_items HouseOfCommonsScraper debates_oct20) \<le> 5 \<and>
   length (extract_items HouseOfCommonsScraper debates_oct20) \<le> 1 \<and>
   find_title debates_oct20 = find_title debates_oct20_bare \<and>
   extract_items HouseOfCommonsScraper debates_oct20 =
     extract_items HouseOfCommonsScraper debates_oct20_bare \<and>
   (\<exists>title n g2 g3.
      find_title debates_oct20 = Some title \<and> full_text debate_oct20 = get_text title \<and>
      n < length (get_text title) \<and>
      date_match (drop n (get_text title)) = Some (month debate_oct20, g2, g3) \<and>
      (\<forall>k<n. date_match (drop k (get_text title)) = None) \<and>
      day debate_oct20 = int_of_digits g2 \<and> year debate_oct20 = int_of_digits g3)"
proof -
  note th = at_most_five_items[of HouseOfCommonsScraper debates_oct20 debates_oct20_bare]
  have e: "extract_items HouseOfCommonsScraper debates_oct20 = [debate_oct20]"
    by code_simp
  have t: "find_title debates_oct20 = find_title debates_oct20_bare"
    by code_simp
  from th t have same: "extract_items HouseOfCommonsScraper debates_oct20 =
                          extract_items HouseOfCommonsScraper debates_oct20_bare"
    by blast
  from th have "\<forall>it \<in> set (extract_items HouseOfCommonsScraper debates_oct20).
      \<exists>title n g2 g3.
        find_title debates_oct20 = Some title \<and> full_text it = get_text title \<and>
        n < length (get_text title) \<and>
        date_match (drop n (get_text title)) = Some (month it, g2, g3) \<and>
        (\<forall>k<n. date_match (drop k (get_text title)) = None) \<and>
        day it = int_of_digits g2 \<and> year it = int_of_digits g3"
    by blast
  then have first: "\<exists>title n g2 g3.
      find_title debates_oct20 = Some title \<and> full_text debate_oct20 = get_text title \<and>
      n < length (get_text title) \<and>
      date_match (drop n (get_text title)) = Some (month debate_oct20, g2, g3) \<and>
      (\<forall>k<n. date_match (drop k (get_text title)) = None) \<and>
      day debate_oct20 = int_of_digits g2 \<and> year debate_oct20 = int_of_digits g3"
    unfolding e by simp
  from th have "length (extract_items HouseOfCommonsScraper debates_oct20) \<le> 5"
    "length (extract_items HouseOfCommonsScraper debates_oct20) \<le> 1"
    by blast+
  with e t same first show ?thesis
    by blast
qed


section \<open>Links\<close>




section \<open>Checking against a reference\<close>

text \<open>
  Claim C10: with a reference that is present and parses, \<^verbatim>\<open>check_for_new\<close> returns a
  pair whose flag is true exactly when its list is non-empty; the list is empty after a
  failed fetch and otherwise consists of items of the at most five extracted ones, in
  their order.
\<close>

theorem check_for_new_pair:
  assumes "s \<noteq> []" and "F s = Inr R"
  shows "\<exists>new. check_for_new F sc page now (Some s) = Inr (new \<noteq> [], new) \<and>
           (case get_latest_info sc page now of
              Failed e t g \<Rightarrow> new = []
            | Latest latest_items t g \<Rightarrow>
                length latest_items \<le> 5 \<and>
                new = filter (\<lambda>it. item_is_new sc R it = Inr True) latest_items)"
proof (cases page)
  case (Inl e)
  then show ?thesis
    by (simp add: check_for_new_def get_latest_info_def)
next
  case (Inr soup)
  with assms show ?thesis
    by (simp add: check_for_new_def get_latest_info_def evaluate_present
        new_items_loop_filter length_extract_items)
qed

text \<open>
  On the meetings page against the morning of November 1, 2025: the December meeting is
  new, the October one is not.
\<close>

theorem check_for_new_pair_witness:
  "''2025-11-01T08:30:00'' \<noteq> [] \<and>
   fromisoformat_sample ''2025-11-01T08:30:00'' = Inr nov1_morning \<and>
   check_for_new fromisoformat_sample StrathconaCountyScraper (Inr meetings_dec_oct)
     ''2025-12-11T09:00:01'' (Some ''2025-11-01T08:30:00'') = Inr (True, [meeting_dec9]) \<and>
   get_latest_info StrathconaCountyScraper (Inr meetings_dec_oct) ''2025-12-11T09:00:01'' =
     Latest [meeting_oct7, meeting_dec9] ''2025-12-11T09:00:01'' ''Strathcona County Council'' \<and>
   [meeting_dec9] =
     filter (\<lambda>it. item_is_new StrathconaCountyScraper nov1_morning it = Inr True)
       [meeting_oct7, meeting_dec9]"
proof -
  have h1: "''2025-11-01T08:30:00'' \<noteq> []"
    by simp
  have h2: "fromisoformat_sample ''2025-11-01T08:30:00'' = Inr nov1_morning"
    by (simp add: fromisoformat_sample_def)
  have i: "get_latest_info StrathconaCountyScraper (Inr meetings_dec_oct) ''2025-12-11T09:00:01'' =
     Latest [meeting_oct7, meeting_dec9] ''2025-12-11T09:00:01'' ''Strathcona County Council''"
    by code_simp
  have f: "filter (\<lambda>it. item_is_new StrathconaCountyScraper nov1_morning it = Inr True)
       [meeting_oct7, meeting_dec9] = [meeting_dec9]"
    by code_simp
  from check_for_new_pair[where F = fromisoformat_sample and sc = StrathconaCountyScraper
      and page = "Inr meetings_dec_oct" and now = "''2025-12-11T09:00:01''", OF h1 h2]
  have "check_for_new fromisoformat_sample StrathconaCountyScraper (Inr meetings_dec_oct)
     ''2025-12-11T09:00:01'' (Some ''2025-11-01T08:30:00'') = Inr (True, [meeting_dec9])"
    unfolding i info.case f by auto
  with h1 h2 i f show ?thesis
    by simp
qed


text \<open>
  Claim C2, amended: for a reference that is present, parses and carries no offset, the
  new items are exactly the items whose normalized date is a date of the calendar (year 1
  to 9999, day within the month) and is greater than the reference's date in the order on
  (year, month, day); they keep the order of the input.
\<close>

theorem evaluate_present_reference:
  assumes "s \<noteq> []" and "F s = Inr R" and "dt_tzinfo R = None"
  shows "evaluate F sc items (Some s) =
           Inr (filter (\<lambda>it. valid_ymd (normalized_date sc it) \<and>
                             (dt_year R, dt_month R, dt_day R) < normalized_date sc it) items \<noteq> [],
                filter (\<lambda>it. valid_ymd (normalized_date sc it) \<and>
                             (dt_year R, dt_month R, dt_day R) < normalized_date sc it) items)"
  using assms
  by (simp add: evaluate_present new_items_loop_filter item_is_new_naive)

text \<open>
  The two meetings against the morning of November 1, 2025.
\<close>

theorem evaluate_present_reference_witness:
  "''2025-11-01T08:30:00'' \<noteq> [] \<and>
   fromisoformat_sample ''2025-11-01T08:30:00'' = Inr nov1_morning \<and>
   dt_tzinfo nov1_morning = None \<and>
   evaluate fromisoformat_sample StrathconaCountyScraper [meeting_oct7, meeting_dec9]
     (Some ''2025-11-01T08:30:00'') = Inr (True, [meeting_dec9])"
proof -
  have h1: "''2025-11-01T08:30:00'' \<noteq> []"
    by simp
  have h2: "fromisoformat_sample ''2025-11-01T08:30:00'' = Inr nov1_morning"
    by (rule fromisoformat_sample_values)
  have h3: "dt_tzinfo nov1_morning = None"
    by (simp add: nov1_morning_def)
  have f: "filter (\<lambda>it. valid_ymd (normalized_date StrathconaCountyScraper it) \<and>
                     (dt_year nov1_morning, dt_month nov1_morning, dt_day nov1_morning)
                       < normalized_date StrathconaCountyScraper it)
             [meeting_oct7, meeting_dec9] = [meeting_dec9]"
    by code_simp
  from evaluate_present_reference[where F = fromisoformat_sample
      and sc = StrathconaCountyScraper and items = "[meeting_oct7, meeting_dec9]", OF h1 h2 h3]
    h1 h2 h3
  show ?thesis
    unfolding f by simp
qed

text \<open>
  Claim C2 as stated counts every item whose normalized date exceeds the reference's. A
  row reading \<open>Bill 45, 2025\<close> is extracted with day 45 and month 1; that is greater
  than January 1, 2025, but it is no date, and the item is left out.
\<close>

theorem bill_number_not_reported:
  "fromisoformat_sample ''2025-01-01'' =
     Inr \<lparr>dt_year = 2025, dt_month = 1, dt_day = 1, dt_hour = 0, dt_minute = 0,
          dt_second = 0, dt_microsecond = 0, dt_tzinfo = None\<rparr> \<and>
   map (normalized_date AlbertaLegislatureScraper)
       (extract_items AlbertaLegislatureScraper transcripts_bill) =
     [(2025, 12, 10), (2025, 1, 45)] \<and>
   (2025, 1, 1) < ((2025, 1, 45) :: int \<times> int \<times> int) \<and>
   evaluate fromisoformat_sample AlbertaLegislatureScraper
       (extract_items AlbertaLegislatureScraper transcripts_bill) (Some ''2025-01-01'') =
     Inr (True, take 1 (extract_items AlbertaLegislatureScraper transcripts_bill))"
  by code_simp



section \<open>A failed fetch\<close>

text \<open>
  Claim C4, amended: when \<^verbatim>\<open>check_all\<close> returns and the fetch of one source failed, the
  entry of that source has \<open>has_new_content\<close> false and no new items, and the entries
  of the other sources are what they are when the fetch of that source gives any other
  result. An entry holds a name, the flag and the new items, and nothing else.
\<close>

theorem failed_fetch_entry:
  assumes "pages sc = Inl e"
    and "check_all F pages clock now ref = Inr r"
    and "check_all F (pages(sc := p)) clock' now' ref = Inr r'"
    and "sc' \<noteq> sc"
  shows "governments r ! position sc =
           \<lparr>name = scraper_name sc, has_new_content = False, new_items = []\<rparr> \<and>
         governments r' ! position sc' = governments r ! position sc'"
proof
  from governments_nth[OF assms(2), of sc] assms(1)
  show "governments r ! position sc =
          \<lparr>name = scraper_name sc, has_new_content = False, new_items = []\<rparr>"
    by (auto simp: check_for_new_failed)
next
  from governments_nth[OF assms(2), of sc'] obtain h n
    where a: "check_for_new F sc' (pages sc') (clock sc') ref = Inr (h, n)"
      and b: "governments r ! position sc' =
                \<lparr>name = scraper_name sc', has_new_content = h, new_items = n\<rparr>"
    by blast
  from governments_nth[OF assms(3), of sc'] assms(4) obtain h' n'
    where a': "check_for_new F sc' (pages sc') (clock' sc') ref = Inr (h', n')"
      and b': "governments r' ! position sc' =
                \<lparr>name = scraper_name sc', has_new_content = h', new_items = n'\<rparr>"
    by auto
  from a a' check_for_new_clock[of F sc' "pages sc'" "clock sc'" ref "clock' sc'"]
  have "h' = h" "n' = n"
    by simp_all
  with b b' show "governments r' ! position sc' = governments r ! position sc'"
    by simp
qed

text \<open>
  With the provincial fetch failing, and with the same fetch giving the transcripts
  page.
\<close>

theorem failed_fetch_entry_witness:
  "pages_alberta_down AlbertaLegislatureScraper = Inl ''503 Server Error'' \<and>
   StrathconaCountyScraper \<noteq> AlbertaLegislatureScraper \<and>
   (\<exists>r r'.
      check_all fromisoformat_sample pages_alberta_down clock_sample ''2025-12-11T09:00:00''
        (Some ''2025-11-01T08:30:00'') = Inr r \<and>
      check_all fromisoformat_sample
        (pages_alberta_down(AlbertaLegislatureScraper := Inr transcripts_dec_oct))
        clock_sample ''2025-12-11T09:05:00'' (Some ''2025-11-01T08:30:00'') = Inr r' \<and>
      governments r ! position AlbertaLegislatureScraper =
        \<lparr>name = ''Alberta Legislature'', has_new_content = False, new_items = []\<rparr> \<and>
      governments r' ! position AlbertaLegislatureScraper =
        \<lparr>name = ''Alberta Legislature'', has_new_content = True,
          new_items = [transcript_dec10]\<rparr> \<and>
      governments r' ! position StrathconaCountyScraper =
        governments r ! position StrathconaCountyScraper)"
proof -
  let ?r = "\<lparr>checked_at = ''2025-12-11T09:00:00'',
        governments =
          [\<lparr>name = ''Alberta Legislature'', has_new_content = False, new_items = []\<rparr>,
           \<lparr>name = ''House of Commons (Canada)'', has_new_content = False, new_items = []\<rparr>,
           \<lparr>name = ''Strathcona County Council'', has_new_content = True,
             new_items = [meeting_dec9]\<rparr>]\<rparr>"
  let ?r' = "\<lparr>checked_at = ''2025-12-11T09:05:00'',
        governments =
          [\<lparr>name = ''Alberta Legislature'', has_new_content = True,
             new_items = [transcript_dec10]\<rparr>,
           \<lparr>name = ''House of Commons (Canada)'', has_new_content = False, new_items = []\<rparr>,
           \<lparr>name = ''Strathcona County Council'', has_new_content = True,
             new_items = [meeting_dec9]\<rparr>]\<rparr>"
  have down: "pages_alberta_down AlbertaLegislatureScraper = Inl ''503 Server Error''"
    by (simp add: pages_alberta_down_def)
  have r: "check_all fromisoformat_sample pages_alberta_down clock_sample
             ''2025-12-11T09:00:00'' (Some ''2025-11-01T08:30:00'') = Inr ?r"
    by code_simp
  have r': "check_all fromisoformat_sample
              (pages_alberta_down(AlbertaLegislatureScraper := Inr transcripts_dec_oct))
              clock_sample ''2025-12-11T09:05:00'' (Some ''2025-11-01T08:30:00'') = Inr ?r'"
    by code_simp
  have ne: "StrathconaCountyScraper \<noteq> AlbertaLegislatureScraper"
    by simp
  from failed_fetch_entry[OF down r r' ne] down r r'
  show ?thesis
    by simp
qed

text \<open>
  Claim C4 as stated has the entry of a failed fetch carry an error, which keeps it apart
  from an entry with nothing new. The result for a provincial fetch that failed is the
  result for a provincial page that is empty.
\<close>

theorem failed_fetch_reads_as_nothing_new:
  "pages_alberta_down AlbertaLegislatureScraper = Inl ''503 Server Error'' \<and>
   pages_alberta_quiet AlbertaLegislatureScraper = Inr empty_page \<and>
   check_all fromisoformat_sample pages_alberta_down clock_sample ''2025-12-11T09:00:00''
     (Some ''2025-11-01T08:30:00'') =
   Inr \<lparr>checked_at = ''2025-12-11T09:00:00'',
        governments =
          [\<lparr>name = ''Alberta Legislature'', has_new_content = False, new_items = []\<rparr>,
           \<lparr>name = ''House of Commons (Canada)'', has_new_content = False, new_items = []\<rparr>,
           \<lparr>name = ''Strathcona County Council'', has_new_content = True,
             new_items = [meeting_dec9]\<rparr>]\<rparr> \<and>
   check_all fromisoformat_sample pages_alberta_quiet clock_sample ''2025-12-11T09:00:00''
     (Some ''2025-11-01T08:30:00'') =
   check_all fromisoformat_sample pages_alberta_down clock_sample ''2025-12-11T09:00:00''
     (Some ''2025-11-01T08:30:00'')"
  by code_simp

section \<open>Normalization and the calendar\<close>

text \<open>
  Claim C6 as stated has every table accept full names and abbreviations. The provincial
  table has no \<open>October\<close> and the federal table no \<open>Oct\<close>: both fall back to month 1.
\<close>

theorem month_tables_differ:
  "map_of (month_map AlbertaLegislatureScraper) ''October'' = None \<and>
   month_map_get AlbertaLegislatureScraper ''October'' = 1 \<and>
   map_of (month_map HouseOfCommonsScraper) ''Oct'' = None \<and>
   month_map_get HouseOfCommonsScraper ''Oct'' = 1"
  by (simp add: month_map_get_def)

text \<open>
  Claim C6, amended: the provincial table holds the three-letter abbreviations only, the
  federal table the full names only, the municipal table both. For items whose month is
  in the scraper's table, the normalized date is the date of the calendar that the item's
  month, day and year stand for; so two such items have equal normalized dates exactly
  when their dates are equal, and the order of the normalized dates is the order of the
  dates.
\<close>

theorem normalization_follows_calendar:
  assumes "map_of (month_map sc) (month a) \<noteq> None"
    and "map_of (month_map sc) (month b) \<noteq> None"
  shows "(\<exists>ca cb. calendar_date a = Some ca \<and> calendar_date b = Some cb \<and>
            (normalized_date sc a = normalized_date sc b \<longleftrightarrow> ca = cb) \<and>
            (normalized_date sc a < normalized_date sc b \<longleftrightarrow> ca < cb)) \<and>
         set (map fst (month_map AlbertaLegislatureScraper)) = set month_abbreviations \<and>
         set (map fst (month_map HouseOfCommonsScraper)) = set month_names \<and>
         set (map fst (month_map StrathconaCountyScraper)) =
           set month_names \<union> set month_abbreviations"
  using recognized_calendar_date[OF assms(1)] recognized_calendar_date[OF assms(2)]
    month_map_tables
  by simp

text \<open>
  The two transcript rows with the provincial table.
\<close>

theorem normalization_follows_calendar_witness:
  "map_of (month_map AlbertaLegislatureScraper) (month transcript_oct5) \<noteq> None \<and>
   map_of (month_map AlbertaLegislatureScraper) (month transcript_dec10) \<noteq> None \<and>
   calendar_date transcript_oct5 = Some (2025, 10, 5) \<and>
   calendar_date transcript_dec10 = Some (2025, 12, 10) \<and>
   normalized_date AlbertaLegislatureScraper transcript_oct5
     < normalized_date AlbertaLegislatureScraper transcript_dec10"
proof -
  have a: "map_of (month_map AlbertaLegislatureScraper) (month transcript_oct5) \<noteq> None"
    by (simp add: transcript_oct5_def)
  have b: "map_of (month_map AlbertaLegislatureScraper) (month transcript_dec10) \<noteq> None"
    by (simp add: transcript_dec10_def)
  have ca: "calendar_date transcript_oct5 = Some (2025, 10, 5)"
    by code_simp
  have cb: "calendar_date transcript_dec10 = Some (2025, 12, 10)"
    by code_simp
  from normalization_follows_calendar[OF a b] ca cb
  have "normalized_date AlbertaLegislatureScraper transcript_oct5
          < normalized_date AlbertaLegislatureScraper transcript_dec10"
    by simp
  with a b ca cb show ?thesis
    by simp
qed

end
